theory Spec2Isabelle
  imports Main "HOL-Library.Word"
begin

section \<open>Random number generator base classes (rng.h)\<close>

text \<open>
  A \<^verbatim>\<open>byte\<close> is an unsigned 8-bit integer. A C++ exception is a value: every Botan
  exception derives from \<^verbatim>\<open>Exception\<close> and carries its message. A member function that
  may mutate its object and may throw is a function from the object's state to the outcome
  (\<open>Inl\<close> the exception thrown, \<open>Inr\<close> the value returned) and the object's state
  afterwards: the object outlives a throw. A \<^verbatim>\<open>const\<close> member function only reads the
  state. A call \<^verbatim>\<open>randomize(output, length)\<close> is given the length and returns the bytes it
  wrote to \<^verbatim>\<open>output\<close>; lengths (\<^verbatim>\<open>size_t\<close>) are only ever passed on, never computed
  with, and are natural numbers here.
\<close>

type_synonym byte = "8 word"

datatype exn = Exception string

type_synonym ('s, 'a) memfun = "'s \<Rightarrow> (exn + 'a) \<times> 's"

text \<open>
  The interface \<^verbatim>\<open>RandomNumberGenerator\<close>: one field per virtual member function, over
  the state \<open>'s\<close> of the concrete class. \<^verbatim>\<open>randomize_with_input\<close> is virtual with a
  default body: the field holds the override of a class that specializes it, \<open>None\<close> for a
  class that inherits the default.
\<close>

record 's RandomNumberGenerator =
  randomize :: "nat \<Rightarrow> ('s, byte list) memfun"
  add_entropy :: "byte list \<Rightarrow> ('s, unit) memfun"
  randomize_with_input_override :: "(nat \<Rightarrow> byte list \<Rightarrow> ('s, byte list) memfun) option"
  name :: "'s \<Rightarrow> string"
  clear :: "('s, unit) memfun"
  is_seeded :: "'s \<Rightarrow> bool"

text \<open>
  Modelled from the spec: the body of \<^verbatim>\<open>RandomNumberGenerator::randomize_with_input\<close>,
  which rng.h only declares (rng.cpp is not among the sources). The declaration's comment says
  ``default calls add_entropy + randomize in sequence'', the specification ``perform the two
  steps in that order''. A throw of \<^verbatim>\<open>add_entropy\<close> leaves the function before
  \<^verbatim>\<open>randomize\<close> is called.
\<close>

definition RandomNumberGenerator_randomize_with_input ::
  "('s, 'z) RandomNumberGenerator_scheme \<Rightarrow> nat \<Rightarrow> byte list \<Rightarrow> ('s, byte list) memfun" where
  "RandomNumberGenerator_randomize_with_input this output_len input s =
     (case add_entropy this input s of
        (Inl e, s') \<Rightarrow> (Inl e, s')
      | (Inr _, s') \<Rightarrow> randomize this output_len s')"

text \<open>The virtual call \<^verbatim>\<open>rng.randomize_with_input(...)\<close>: the override if there is one.\<close>

definition randomize_with_input ::
  "('s, 'z) RandomNumberGenerator_scheme \<Rightarrow> nat \<Rightarrow> byte list \<Rightarrow> ('s, byte list) memfun" where
  "randomize_with_input this =
     (case randomize_with_input_override this of
        None \<Rightarrow> RandomNumberGenerator_randomize_with_input this
      | Some f \<Rightarrow> f)"

text \<open>
  Modelled from the spec: the body of \<^verbatim>\<open>RandomNumberGenerator::randomize_with_ts_input\<close>,
  which rng.h only declares (rng.cpp is not among the sources). Its comment says ``this calls
  randomize_with_input using a buffer with various timestamps''. The clocks are read outside
  the program: \<open>ts\<close> is the timestamp buffer of the call. The first argument is the object's
  own (virtual) \<^verbatim>\<open>randomize_with_input\<close>.
\<close>

definition RandomNumberGenerator_randomize_with_ts_input ::
  "(nat \<Rightarrow> byte list \<Rightarrow> ('s, byte list) memfun) \<Rightarrow> byte list \<Rightarrow> nat \<Rightarrow> ('s, byte list) memfun" where
  "RandomNumberGenerator_randomize_with_ts_input this_randomize_with_input ts output_len =
     this_randomize_with_input output_len ts"

subsection \<open>Utility functions built on the interface\<close>

text \<open>
  \<^verbatim>\<open>next_byte\<close> passes the address of an uninitialised local and a length of one, and
  returns the local. A generator that returns normally has filled the buffer, so the local is
  the byte it wrote; were nothing written the local would be indeterminate, as \<open>hd []\<close> is.
\<close>

definition next_byte :: "('s, 'z) RandomNumberGenerator_scheme \<Rightarrow> ('s, byte) memfun" where
  "next_byte this s =
     (case randomize this 1 s of
        (Inl e, s') \<Rightarrow> (Inl e, s')
      | (Inr out, s') \<Rightarrow> (Inr (hd out), s'))"

text \<open>
  The loop \<^verbatim>\<open>while(b == 0) b = this->next_byte();\<close> has no bound: it is a partial function,
  \<open>None\<close> when it runs forever. A throw of \<^verbatim>\<open>next_byte\<close> leaves the loop.
\<close>

partial_function (option) next_nonzero_byte_loop ::
  "('s, 'z) RandomNumberGenerator_scheme \<Rightarrow> byte \<Rightarrow> 's \<Rightarrow> ((exn + byte) \<times> 's) option" where
  "next_nonzero_byte_loop this b s =
     (if b = 0 then
        (case next_byte this s of
           (Inl e, s') \<Rightarrow> Some (Inl e, s')
         | (Inr b', s') \<Rightarrow> next_nonzero_byte_loop this b' s')
      else Some (Inr b, s))"

definition next_nonzero_byte ::
  "('s, 'z) RandomNumberGenerator_scheme \<Rightarrow> 's \<Rightarrow> ((exn + byte) \<times> 's) option" where
  "next_nonzero_byte this s =
     (case next_byte this s of
        (Inl e, s') \<Rightarrow> Some (Inl e, s')
      | (Inr b, s') \<Rightarrow> next_nonzero_byte_loop this b s')"

subsection \<open>Null\_RNG\<close>

text \<open>The stub has no data members: its state is \<open>unit\<close>.\<close>

definition Null_RNG_is_seeded :: "unit \<Rightarrow> bool" where
  "Null_RNG_is_seeded s = False"

definition Null_RNG_clear :: "(unit, unit) memfun" where
  "Null_RNG_clear s = (Inr (), s)"

definition Null_RNG_randomize :: "nat \<Rightarrow> (unit, byte list) memfun" where
  "Null_RNG_randomize len s = (Inl (Exception ''Null_RNG called''), s)"

definition Null_RNG_add_entropy :: "byte list \<Rightarrow> (unit, unit) memfun" where
  "Null_RNG_add_entropy input s = (Inr (), s)"

definition Null_RNG_name :: "unit \<Rightarrow> string" where
  "Null_RNG_name s = ''Null_RNG''"

definition Null_RNG :: "unit RandomNumberGenerator" where
  "Null_RNG =
     \<lparr> randomize = Null_RNG_randomize,
       add_entropy = Null_RNG_add_entropy,
       randomize_with_input_override = None,
       name = Null_RNG_name,
       clear = Null_RNG_clear,
       is_seeded = Null_RNG_is_seeded \<rparr>"

subsection \<open>Serialized\_RNG\<close>

text \<open>
  The wrapper owns a mutex and a generator (the member \<^verbatim>\<open>m_rng\<close>, here \<open>m_rng_owned\<close>:
  the self-seeding generator below has a member of the same name). The mutex is held
  (\<open>True\<close>) or free. A run of one thread is modelled: \<^verbatim>\<open>lock()\<close> returns with the mutex
  held, and the wait for another thread that holds it is not part of such a run.
\<close>

record 's Serialized_RNG =
  m_mutex :: bool
  m_rng_owned :: 's

text \<open>
  A body under \<^verbatim>\<open>std::lock_guard<std::mutex> lock(m_mutex)\<close>: the guard's constructor locks
  the mutex before the body runs, its destructor unlocks it when the body is left, by a
  return or by a throw.
\<close>

definition lock_guard ::
  "('s Serialized_RNG \<Rightarrow> 'a \<times> 's Serialized_RNG) \<Rightarrow> 's Serialized_RNG \<Rightarrow> 'a \<times> 's Serialized_RNG" where
  "lock_guard body this =
     (case body (this\<lparr>m_mutex := True\<rparr>) of
        (r, this') \<Rightarrow> (r, this'\<lparr>m_mutex := False\<rparr>))"

text \<open>A call \<^verbatim>\<open>m_rng->f(...)\<close> of the wrapper.\<close>

definition m_rng_owned_call :: "('s \<Rightarrow> 'a \<times> 's) \<Rightarrow> 's Serialized_RNG \<Rightarrow> 'a \<times> 's Serialized_RNG" where
  "m_rng_owned_call f this =
     (case f (m_rng_owned this) of (r, s) \<Rightarrow> (r, this\<lparr>m_rng_owned := s\<rparr>))"

definition Serialized_RNG_randomize ::
  "('s, 'z) RandomNumberGenerator_scheme \<Rightarrow> nat \<Rightarrow> ('s Serialized_RNG, byte list) memfun" where
  "Serialized_RNG_randomize R len = lock_guard (m_rng_owned_call (randomize R len))"

text \<open>
  \<^verbatim>\<open>is_seeded\<close> and \<^verbatim>\<open>name\<close> are \<^verbatim>\<open>const\<close>, the mutex is \<^verbatim>\<open>mutable\<close>: they return
  their value and the wrapper as the guard leaves it.
\<close>

definition Serialized_RNG_is_seeded ::
  "('s, 'z) RandomNumberGenerator_scheme \<Rightarrow> 's Serialized_RNG \<Rightarrow> bool \<times> 's Serialized_RNG" where
  "Serialized_RNG_is_seeded R = lock_guard (\<lambda>this. (is_seeded R (m_rng_owned this), this))"

definition Serialized_RNG_clear ::
  "('s, 'z) RandomNumberGenerator_scheme \<Rightarrow> ('s Serialized_RNG, unit) memfun" where
  "Serialized_RNG_clear R = lock_guard (m_rng_owned_call (clear R))"

definition Serialized_RNG_name ::
  "('s, 'z) RandomNumberGenerator_scheme \<Rightarrow> 's Serialized_RNG \<Rightarrow> string \<times> 's Serialized_RNG" where
  "Serialized_RNG_name R = lock_guard (\<lambda>this. (name R (m_rng_owned this), this))"


definition Serialized_RNG_add_entropy ::
  "('s, 'z) RandomNumberGenerator_scheme \<Rightarrow> byte list \<Rightarrow> ('s Serialized_RNG, unit) memfun" where
  "Serialized_RNG_add_entropy R input = lock_guard (m_rng_owned_call (add_entropy R input))"


text \<open>
  The wrapper as a generator: the members it overrides. \<^verbatim>\<open>randomize_with_input\<close> is not
  among them, so a call of it on the wrapper runs the default body of the interface.
\<close>

definition Serialized_RNG ::
  "('s, 'z) RandomNumberGenerator_scheme \<Rightarrow> 's Serialized_RNG RandomNumberGenerator" where
  "Serialized_RNG R =
     \<lparr> randomize = Serialized_RNG_randomize R,
       add_entropy = Serialized_RNG_add_entropy R,
       randomize_with_input_override = None,
       name = (\<lambda>this. fst (Serialized_RNG_name R this)),
       clear = Serialized_RNG_clear R,
       is_seeded = (\<lambda>this. fst (Serialized_RNG_is_seeded R this)) \<rparr>"

section \<open>The self-seeding generator (auto\_rng.cpp)\<close>

text \<open>
  \<^verbatim>\<open>BOTAN_AUTO_RNG_DRBG\<close> is a macro naming the DRBG class, whose code is not part of the
  sources: the class is a parameter, its three constructors, \<^verbatim>\<open>force_reseed\<close> and
  \<^verbatim>\<open>reseed\<close> added to the interface. \<open>'d\<close> is the state of a DRBG object together with
  the seed sources it borrows, \<open>'r\<close> a reference to an underlying generator, \<open>'e\<close> an
  \<^verbatim>\<open>Entropy_Sources\<close> object and \<open>'m\<close> what \<^verbatim>\<open>MessageAuthenticationCode::create\<close>
  returns. A constructor returns the new object or throws. \<^verbatim>\<open>reseed\<close> takes the entropy
  sources by reference: it acts on the object and the sources.
\<close>

record ('d, 'r, 'e, 'm) AUTO_RNG_DRBG = "'d RandomNumberGenerator" +
  new_with_rng :: "'m \<Rightarrow> 'r \<Rightarrow> nat \<Rightarrow> exn + 'd"
  new_with_sources :: "'m \<Rightarrow> 'e \<Rightarrow> nat \<Rightarrow> exn + 'd"
  new_with_rng_and_sources :: "'m \<Rightarrow> 'r \<Rightarrow> 'e \<Rightarrow> nat \<Rightarrow> exn + 'd"
  force_reseed :: "('d, unit) memfun"
  reseed :: "nat \<Rightarrow> int \<Rightarrow> ('d \<times> 'e, nat) memfun"

text \<open>The macros and globals of the build that auto\_rng.cpp refers to.\<close>

record ('d, 'r, 'e, 'm) build =
  BOTAN_AUTO_RNG_DRBG :: "('d, 'r, 'e, 'm) AUTO_RNG_DRBG"
  BOTAN_AUTO_RNG_HMAC :: string
  MessageAuthenticationCode_create :: "string \<Rightarrow> 'm"
  BOTAN_HAS_SYSTEM_RNG :: bool
  system_rng :: 'r
  Entropy_Sources_global_sources :: 'e

record 'd AutoSeeded_RNG =
  m_rng :: 'd

text \<open>A call \<^verbatim>\<open>m_rng->f(...)\<close>: \<open>f\<close> runs on the owned DRBG, which is left as \<open>f\<close> leaves it.\<close>

definition m_rng_call :: "('d, 'a) memfun \<Rightarrow> ('d AutoSeeded_RNG, 'a) memfun" where
  "m_rng_call f this = (case f (m_rng this) of (r, d) \<Rightarrow> (r, this\<lparr>m_rng := d\<rparr>))"

text \<open>A constructor whose body throws constructs no object.\<close>

definition constructor_body :: "('o, unit) memfun \<Rightarrow> 'o \<Rightarrow> exn + 'o" where
  "constructor_body body this =
     (case body this of (Inl e, _) \<Rightarrow> Inl e | (Inr _, this') \<Rightarrow> Inr this')"

definition AutoSeeded_RNG_force_reseed ::
  "('d, 'r, 'e, 'm) AUTO_RNG_DRBG \<Rightarrow> ('d AutoSeeded_RNG, unit) memfun" where
  "AutoSeeded_RNG_force_reseed D this =
     (case m_rng_call (force_reseed D) this of
        (Inl e, this1) \<Rightarrow> (Inl e, this1)
      | (Inr _, this1) \<Rightarrow>
          (case m_rng_call (randomize D 0) this1 of
             (Inl e, this2) \<Rightarrow> (Inl e, this2)
           | (Inr _, this2) \<Rightarrow>
               if \<not> is_seeded D (m_rng this2)
               then (Inl (Exception ''AutoSeeded_RNG reseeding failed''), this2)
               else (Inr (), this2)))"

definition AutoSeeded_RNG_rng ::
  "('d, 'r, 'e, 'm) build \<Rightarrow> 'r \<Rightarrow> nat \<Rightarrow> exn + 'd AutoSeeded_RNG" where
  "AutoSeeded_RNG_rng env underlying_rng max_output_before_reseed =
     (case new_with_rng (BOTAN_AUTO_RNG_DRBG env)
             (MessageAuthenticationCode_create env (BOTAN_AUTO_RNG_HMAC env))
             underlying_rng max_output_before_reseed of
        Inl e \<Rightarrow> Inl e
      | Inr d \<Rightarrow>
          constructor_body (AutoSeeded_RNG_force_reseed (BOTAN_AUTO_RNG_DRBG env)) \<lparr>m_rng = d\<rparr>)"

definition AutoSeeded_RNG_sources ::
  "('d, 'r, 'e, 'm) build \<Rightarrow> 'e \<Rightarrow> nat \<Rightarrow> exn + 'd AutoSeeded_RNG" where
  "AutoSeeded_RNG_sources env entropy_sources max_output_before_reseed =
     (case new_with_sources (BOTAN_AUTO_RNG_DRBG env)
             (MessageAuthenticationCode_create env (BOTAN_AUTO_RNG_HMAC env))
             entropy_sources max_output_before_reseed of
        Inl e \<Rightarrow> Inl e
      | Inr d \<Rightarrow>
          constructor_body (AutoSeeded_RNG_force_reseed (BOTAN_AUTO_RNG_DRBG env)) \<lparr>m_rng = d\<rparr>)"

definition AutoSeeded_RNG_rng_and_sources ::
  "('d, 'r, 'e, 'm) build \<Rightarrow> 'r \<Rightarrow> 'e \<Rightarrow> nat \<Rightarrow> exn + 'd AutoSeeded_RNG" where
  "AutoSeeded_RNG_rng_and_sources env underlying_rng entropy_sources max_output_before_reseed =
     (case new_with_rng_and_sources (BOTAN_AUTO_RNG_DRBG env)
             (MessageAuthenticationCode_create env (BOTAN_AUTO_RNG_HMAC env))
             underlying_rng entropy_sources max_output_before_reseed of
        Inl e \<Rightarrow> Inl e
      | Inr d \<Rightarrow>
          constructor_body (AutoSeeded_RNG_force_reseed (BOTAN_AUTO_RNG_DRBG env)) \<lparr>m_rng = d\<rparr>)"

text \<open>The delegating constructor: the preprocessor picks the target, the body is empty.\<close>

definition AutoSeeded_RNG_default ::
  "('d, 'r, 'e, 'm) build \<Rightarrow> nat \<Rightarrow> exn + 'd AutoSeeded_RNG" where
  "AutoSeeded_RNG_default env max_output_before_reseed =
     (if BOTAN_HAS_SYSTEM_RNG env
      then AutoSeeded_RNG_rng env (system_rng env) max_output_before_reseed
      else AutoSeeded_RNG_sources env (Entropy_Sources_global_sources env)
             max_output_before_reseed)"

text \<open>The four overloads as one function of the argument list.\<close>

datatype ('r, 'e) constructor_args =
    From_rng 'r nat
  | From_sources 'e nat
  | From_rng_and_sources 'r 'e nat
  | From_default nat

fun AutoSeeded_RNG_new ::
  "('d, 'r, 'e, 'm) build \<Rightarrow> ('r, 'e) constructor_args \<Rightarrow> exn + 'd AutoSeeded_RNG" where
  "AutoSeeded_RNG_new env (From_rng r n) = AutoSeeded_RNG_rng env r n"
| "AutoSeeded_RNG_new env (From_sources es n) = AutoSeeded_RNG_sources env es n"
| "AutoSeeded_RNG_new env (From_rng_and_sources r es n) = AutoSeeded_RNG_rng_and_sources env r es n"
| "AutoSeeded_RNG_new env (From_default n) = AutoSeeded_RNG_default env n"

definition AutoSeeded_RNG_is_seeded ::
  "('d, 'r, 'e, 'm) AUTO_RNG_DRBG \<Rightarrow> 'd AutoSeeded_RNG \<Rightarrow> bool" where
  "AutoSeeded_RNG_is_seeded D this = is_seeded D (m_rng this)"

definition AutoSeeded_RNG_clear ::
  "('d, 'r, 'e, 'm) AUTO_RNG_DRBG \<Rightarrow> ('d AutoSeeded_RNG, unit) memfun" where
  "AutoSeeded_RNG_clear D = m_rng_call (clear D)"

definition AutoSeeded_RNG_name ::
  "('d, 'r, 'e, 'm) AUTO_RNG_DRBG \<Rightarrow> 'd AutoSeeded_RNG \<Rightarrow> string" where
  "AutoSeeded_RNG_name D this = name D (m_rng this)"

definition AutoSeeded_RNG_add_entropy ::
  "('d, 'r, 'e, 'm) AUTO_RNG_DRBG \<Rightarrow> byte list \<Rightarrow> ('d AutoSeeded_RNG, unit) memfun" where
  "AutoSeeded_RNG_add_entropy D input = m_rng_call (add_entropy D input)"

definition AutoSeeded_RNG_reseed ::
  "('d, 'r, 'e, 'm) AUTO_RNG_DRBG \<Rightarrow> nat \<Rightarrow> int \<Rightarrow> ('d AutoSeeded_RNG \<times> 'e, nat) memfun" where
  "AutoSeeded_RNG_reseed D poll_bits poll_timeout =
     (\<lambda>(this, srcs).
        case reseed D poll_bits poll_timeout (m_rng this, srcs) of
          (r, d, srcs') \<Rightarrow> (r, this\<lparr>m_rng := d\<rparr>, srcs'))"

definition AutoSeeded_RNG_randomize_with_input ::
  "('d, 'r, 'e, 'm) AUTO_RNG_DRBG \<Rightarrow> nat \<Rightarrow> byte list \<Rightarrow> ('d AutoSeeded_RNG, byte list) memfun" where
  "AutoSeeded_RNG_randomize_with_input D output_len ad =
     m_rng_call (randomize_with_input D output_len ad)"

text \<open>
  \<^verbatim>\<open>randomize\<close> calls the inherited \<^verbatim>\<open>randomize_with_ts_input\<close> on this object, whose
  \<^verbatim>\<open>randomize_with_input\<close> is the override above; \<open>ts\<close> is what the clocks read.
\<close>

definition AutoSeeded_RNG_randomize ::
  "('d, 'r, 'e, 'm) AUTO_RNG_DRBG \<Rightarrow> byte list \<Rightarrow> nat \<Rightarrow> ('d AutoSeeded_RNG, byte list) memfun" where
  "AutoSeeded_RNG_randomize D ts output_len =
     RandomNumberGenerator_randomize_with_ts_input (AutoSeeded_RNG_randomize_with_input D)
       ts output_len"

section \<open>Notions the properties are stated with\<close>

text \<open>
  The outcome of the \<open>k\<close>-th next call of \<^verbatim>\<open>next_byte\<close> (counting from zero) on a generator
  in state \<open>s\<close>, the calls before it having returned; an earlier throw is the outcome.
\<close>

fun nth_next_byte :: "('s, 'z) RandomNumberGenerator_scheme \<Rightarrow> nat \<Rightarrow> ('s, byte) memfun" where
  "nth_next_byte this 0 s = next_byte this s"
| "nth_next_byte this (Suc k) s =
     (case next_byte this s of
        (Inl e, s') \<Rightarrow> (Inl e, s')
      | (Inr _, s') \<Rightarrow> nth_next_byte this k s')"

text \<open>
  The \<^verbatim>\<open>new BOTAN_AUTO_RNG_DRBG(...)\<close> expression of the constructor that an argument list
  selects.
\<close>

fun AutoSeeded_RNG_new_drbg ::
  "('d, 'r, 'e, 'm) build \<Rightarrow> ('r, 'e) constructor_args \<Rightarrow> exn + 'd" where
  "AutoSeeded_RNG_new_drbg env (From_rng r n) =
     new_with_rng (BOTAN_AUTO_RNG_DRBG env)
       (MessageAuthenticationCode_create env (BOTAN_AUTO_RNG_HMAC env)) r n"
| "AutoSeeded_RNG_new_drbg env (From_sources es n) =
     new_with_sources (BOTAN_AUTO_RNG_DRBG env)
       (MessageAuthenticationCode_create env (BOTAN_AUTO_RNG_HMAC env)) es n"
| "AutoSeeded_RNG_new_drbg env (From_rng_and_sources r es n) =
     new_with_rng_and_sources (BOTAN_AUTO_RNG_DRBG env)
       (MessageAuthenticationCode_create env (BOTAN_AUTO_RNG_HMAC env)) r es n"
| "AutoSeeded_RNG_new_drbg env (From_default n) =
     (if BOTAN_HAS_SYSTEM_RNG env
      then new_with_rng (BOTAN_AUTO_RNG_DRBG env)
             (MessageAuthenticationCode_create env (BOTAN_AUTO_RNG_HMAC env)) (system_rng env) n
      else new_with_sources (BOTAN_AUTO_RNG_DRBG env)
             (MessageAuthenticationCode_create env (BOTAN_AUTO_RNG_HMAC env))
             (Entropy_Sources_global_sources env) n)"

text \<open>
  The post-construction step in the specification's words: call the DRBG's unconditional
  reseed, then draw a zero-length output, then check \<^verbatim>\<open>is_seeded()\<close>; if false, construction
  fails with the seeding error.
\<close>

definition spec_post_construction ::
  "('d, 'r, 'e, 'm) AUTO_RNG_DRBG \<Rightarrow> 'd \<Rightarrow> exn + 'd AutoSeeded_RNG" where
  "spec_post_construction D d0 =
     (case force_reseed D d0 of
        (Inl e, _) \<Rightarrow> Inl e
      | (Inr _, d1) \<Rightarrow>
          (case randomize D 0 d1 of
             (Inl e, _) \<Rightarrow> Inl e
           | (Inr _, d2) \<Rightarrow>
               if is_seeded D d2 then Inr \<lparr>m_rng = d2\<rparr>
               else Inl (Exception ''AutoSeeded_RNG reseeding failed'')))"

text \<open>
  \<open>drbg_throws env args e\<close>: during the construction with \<open>args\<close> the DRBG's constructor, its
  \<^verbatim>\<open>force_reseed\<close> or its zero-length \<^verbatim>\<open>randomize\<close> throws \<open>e\<close>.
\<close>

definition drbg_throws ::
  "('d, 'r, 'e, 'm) build \<Rightarrow> ('r, 'e) constructor_args \<Rightarrow> exn \<Rightarrow> bool" where
  "drbg_throws env args e =
     (case AutoSeeded_RNG_new_drbg env args of
        Inl e' \<Rightarrow> e' = e
      | Inr d0 \<Rightarrow>
          (case force_reseed (BOTAN_AUTO_RNG_DRBG env) d0 of
             (Inl e', _) \<Rightarrow> e' = e
           | (Inr _, d1) \<Rightarrow>
               (case randomize (BOTAN_AUTO_RNG_DRBG env) 0 d1 of
                  (Inl e', _) \<Rightarrow> e' = e
                | (Inr _, _) \<Rightarrow> False)))"

section \<open>Generators for concrete runs\<close>

text \<open>A generator whose output counts up from its state, and one that only returns zero.\<close>

definition Counter_RNG :: "nat RandomNumberGenerator" where
  "Counter_RNG =
     \<lparr> randomize = (\<lambda>len c. (Inr (map of_nat [c..<c + len]), c + len)),
       add_entropy = (\<lambda>input c. (Inr (), c + length input)),
       randomize_with_input_override = None,
       name = (\<lambda>c. ''Counter_RNG''),
       clear = (\<lambda>c. (Inr (), 0)),
       is_seeded = (\<lambda>c. True) \<rparr>"

definition Zero_RNG :: "unit RandomNumberGenerator" where
  "Zero_RNG =
     \<lparr> randomize = (\<lambda>len s. (Inr (replicate len 0), s)),
       add_entropy = (\<lambda>input s. (Inr (), s)),
       randomize_with_input_override = None,
       name = (\<lambda>s. ''Zero_RNG''),
       clear = (\<lambda>s. (Inr (), s)),
       is_seeded = (\<lambda>s. True) \<rparr>"

text \<open>
  A small DRBG that reseeds on the first draw after \<^verbatim>\<open>force_reseed\<close>. Its seed source
  delivers material, or delivers nothing, or is a \<^verbatim>\<open>Null_RNG\<close>, whose \<^verbatim>\<open>randomize\<close> the
  DRBG then calls.
\<close>

datatype seed_source = Working_source | Dry_source | Null_source

record test_drbg =
  drbg_source :: seed_source
  drbg_seeded :: bool
  drbg_counter :: nat
  drbg_max_output :: nat

definition Test_DRBG_poll :: "(test_drbg, unit) memfun" where
  "Test_DRBG_poll d =
     (case drbg_source d of
        Working_source \<Rightarrow> (Inr (), d\<lparr>drbg_seeded := True\<rparr>)
      | Dry_source \<Rightarrow> (Inr (), d)
      | Null_source \<Rightarrow>
          (case randomize Null_RNG 32 () of
             (Inl e, _) \<Rightarrow> (Inl e, d)
           | (Inr _, _) \<Rightarrow> (Inr (), d\<lparr>drbg_seeded := True\<rparr>)))"

definition Test_DRBG_randomize :: "nat \<Rightarrow> (test_drbg, byte list) memfun" where
  "Test_DRBG_randomize len d =
     (case (if drbg_seeded d then (Inr (), d) else Test_DRBG_poll d) of
        (Inl e, d') \<Rightarrow> (Inl e, d')
      | (Inr _, d') \<Rightarrow>
          (Inr (map of_nat [drbg_counter d'..<drbg_counter d' + len]),
           d'\<lparr>drbg_counter := drbg_counter d' + len\<rparr>))"

definition Test_DRBG_new :: "seed_source \<Rightarrow> nat \<Rightarrow> exn + test_drbg" where
  "Test_DRBG_new src n =
     Inr \<lparr>drbg_source = src, drbg_seeded = False, drbg_counter = 0, drbg_max_output = n\<rparr>"

definition Test_DRBG :: "(test_drbg, seed_source, seed_source, string) AUTO_RNG_DRBG" where
  "Test_DRBG =
     \<lparr> randomize = Test_DRBG_randomize,
       add_entropy = (\<lambda>input d. (Inr (), d\<lparr>drbg_counter := drbg_counter d + length input\<rparr>)),
       randomize_with_input_override = None,
       name = (\<lambda>d. ''Test_DRBG''),
       clear = (\<lambda>d. (Inr (), d\<lparr>drbg_seeded := False, drbg_counter := 0\<rparr>)),
       is_seeded = drbg_seeded,
       new_with_rng = (\<lambda>mac r n. Test_DRBG_new r n),
       new_with_sources = (\<lambda>mac es n. Test_DRBG_new es n),
       new_with_rng_and_sources = (\<lambda>mac r es n. Test_DRBG_new r n),
       force_reseed = (\<lambda>d. (Inr (), d\<lparr>drbg_seeded := False\<rparr>)),
       reseed = (\<lambda>poll_bits poll_timeout (d, srcs).
                   if srcs = Working_source
                   then (Inr poll_bits, d\<lparr>drbg_seeded := True\<rparr>, srcs)
                   else (Inr 0, d, srcs)) \<rparr>"

definition Test_build :: "(test_drbg, seed_source, seed_source, string) build" where
  "Test_build =
     \<lparr> BOTAN_AUTO_RNG_DRBG = Test_DRBG,
       BOTAN_AUTO_RNG_HMAC = ''HMAC(SHA-384)'',
       MessageAuthenticationCode_create = (\<lambda>algo. algo),
       BOTAN_HAS_SYSTEM_RNG = True,
       system_rng = Working_source,
       Entropy_Sources_global_sources = Dry_source \<rparr>"


section \<open>Properties\<close>

subsection \<open>The stub\<close>

text \<open>
  Claim C4. For \<^verbatim>\<open>Null_RNG\<close>, \<^verbatim>\<open>is_seeded()\<close> is false on every call, and
  \<^verbatim>\<open>randomize()\<close> throws on every call, whatever the requested length, zero included: no
  call returns bytes.
\<close>

theorem Null_RNG_fails_fast:
  "is_seeded Null_RNG s = False
   \<and> randomize Null_RNG len s = (Inl (Exception ''Null_RNG called''), s)
   \<and> randomize Null_RNG 0 s = (Inl (Exception ''Null_RNG called''), s)
   \<and> fst (randomize Null_RNG len s) \<noteq> Inr out"
  by (simp add: Null_RNG_def Null_RNG_is_seeded_def Null_RNG_randomize_def)

subsection \<open>Drawing a non-zero byte\<close>

lemma next_nonzero_byte_eq_loop:
  "next_nonzero_byte this s = next_nonzero_byte_loop this 0 s"
  by (subst next_nonzero_byte_loop.simps) (simp add: next_nonzero_byte_def)

lemma loop_nonzero:
  "b \<noteq> 0 \<Longrightarrow> next_nonzero_byte_loop this b s = Some (Inr b, s)"
  by (subst next_nonzero_byte_loop.simps) simp

lemma loop_result_nonzero:
  "next_nonzero_byte_loop this b s = Some r \<Longrightarrow> fst r \<noteq> Inr 0"
proof (induction rule: next_nonzero_byte_loop.raw_induct[rotated 1, consumes 1])
  case (1 loop this b s r)
  show ?case
  proof (cases "b = 0")
    case False
    with 1(2) show ?thesis by auto
  next
    case True
    show ?thesis
    proof (cases "next_byte this s")
      case (Pair x s1)
      show ?thesis
      proof (cases x)
        case (Inl e)
        with Pair True 1(2) have "r = (Inl e, s1)" by simp
        then show ?thesis by simp
      next
        case (Inr b1)
        with Pair True 1(2) have "loop this b1 s1 = Some r" by simp
        then show ?thesis by (rule 1(1))
      qed
    qed
  qed
qed

lemma next_nonzero_byte_unfold:
  "next_nonzero_byte this s =
     (case next_byte this s of
        (Inl e, s1) \<Rightarrow> Some (Inl e, s1)
      | (Inr b1, s1) \<Rightarrow> if b1 = 0 then next_nonzero_byte this s1 else Some (Inr b1, s1))"
  by (auto simp: next_nonzero_byte_def next_nonzero_byte_eq_loop[symmetric] loop_nonzero
      split: prod.splits sum.splits)

lemma loop_terminates:
  "fst (nth_next_byte this k s) \<noteq> Inr 0 \<Longrightarrow> \<exists>r. next_nonzero_byte_loop this 0 s = Some r"
proof (induction k arbitrary: s)
  case 0
  then show ?case
    by (subst next_nonzero_byte_loop.simps)
       (auto simp: loop_nonzero split: prod.splits sum.splits)
next
  case (Suc k)
  show ?case
  proof (cases "next_byte this s")
    case (Pair r s1)
    show ?thesis
    proof (cases r)
      case (Inl e)
      with Pair show ?thesis
        by (subst next_nonzero_byte_loop.simps) simp
    next
      case (Inr b)
      show ?thesis
      proof (cases "b = 0")
        case True
        with Pair Inr Suc.prems have "fst (nth_next_byte this k s1) \<noteq> Inr 0" by simp
        from Suc.IH[OF this] obtain r' where "next_nonzero_byte_loop this 0 s1 = Some r'" ..
        with Pair Inr True show ?thesis
          by (subst next_nonzero_byte_loop.simps) simp
      next
        case False
        with Pair Inr show ?thesis
          by (subst next_nonzero_byte_loop.simps) (simp add: loop_nonzero)
      qed
    qed
  qed
qed

lemma loop_some_draw:
  "next_nonzero_byte_loop this b s = Some r \<Longrightarrow>
     b \<noteq> 0 \<or> (\<exists>k. fst (nth_next_byte this k s) \<noteq> Inr 0)"
proof (induction rule: next_nonzero_byte_loop.raw_induct[rotated 1, consumes 1])
  case (1 loop this b s r)
  show ?case
  proof (cases "b = 0")
    case False then show ?thesis by simp
  next
    case True
    show ?thesis
    proof (cases "next_byte this s")
      case (Pair x s1)
      show ?thesis
      proof (cases x)
        case (Inl e)
        with Pair have "fst (nth_next_byte this 0 s) \<noteq> Inr 0" by simp
        then show ?thesis by blast
      next
        case (Inr b1)
        with Pair True 1(2) have "loop this b1 s1 = Some r" by simp
        from 1(1)[OF this] show ?thesis
        proof
          assume "b1 \<noteq> 0"
          with Pair Inr have "fst (nth_next_byte this 0 s) \<noteq> Inr 0" by simp
          then show ?thesis by blast
        next
          assume "\<exists>k. fst (nth_next_byte this k s1) \<noteq> Inr 0"
          then obtain k where "fst (nth_next_byte this k s1) \<noteq> Inr 0" ..
          with Pair Inr have "fst (nth_next_byte this (Suc k) s) \<noteq> Inr 0" by simp
          then show ?thesis by blast
        qed
      qed
    qed
  qed
qed


lemma loop_returns:
  "nth_next_byte this k s = (Inr b, s') \<Longrightarrow> b \<noteq> 0 \<Longrightarrow>
     \<exists>b' s''. next_nonzero_byte_loop this 0 s = Some (Inr b', s'') \<and> b' \<noteq> 0"
proof (induction k arbitrary: s)
  case 0
  then show ?case
    by (subst next_nonzero_byte_loop.simps) (simp add: loop_nonzero)
next
  case (Suc k)
  show ?case
  proof (cases "next_byte this s")
    case (Pair x s1)
    show ?thesis
    proof (cases x)
      case (Inl e)
      with Pair Suc.prems show ?thesis by simp
    next
      case (Inr b1)
      show ?thesis
      proof (cases "b1 = 0")
        case True
        with Pair Inr Suc.prems have "nth_next_byte this k s1 = (Inr b, s')" by simp
        from Suc.IH[OF this Suc.prems(2)] obtain b' s''
          where "next_nonzero_byte_loop this 0 s1 = Some (Inr b', s'')" and "b' \<noteq> 0" by blast
        with Pair Inr True show ?thesis
          by (subst next_nonzero_byte_loop.simps) simp
      next
        case False
        with Pair Inr show ?thesis
          by (subst next_nonzero_byte_loop.simps) (simp add: loop_nonzero)
      qed
    qed
  qed
qed

lemma terminates_iff:
  "(\<exists>r. next_nonzero_byte this s = Some r) \<longleftrightarrow> (\<exists>k. fst (nth_next_byte this k s) \<noteq> Inr 0)"
  unfolding next_nonzero_byte_eq_loop
  using loop_some_draw[of this 0 s] loop_terminates[of this _ s] by blast

lemma Zero_RNG_draws: "nth_next_byte Zero_RNG k s = (Inr 0, s)"
  by (induction k) (simp_all add: next_byte_def Zero_RNG_def)

text \<open>
  Claim C8. A call of \<^verbatim>\<open>next_nonzero_byte()\<close> that returns a byte returns one that is not
  zero, for every generator and state; and the function draws a byte with \<^verbatim>\<open>next_byte\<close>,
  returns it when it is not zero and draws again when it is (a throw of \<^verbatim>\<open>next_byte\<close>
  is passed on).
\<close>

theorem next_nonzero_byte_never_zero:
  "(next_nonzero_byte this s = Some (Inr b, s') \<longrightarrow> b \<noteq> 0)
   \<and> next_nonzero_byte this s =
       (case next_byte this s of
          (Inl e, s1) \<Rightarrow> Some (Inl e, s1)
        | (Inr b1, s1) \<Rightarrow> if b1 = 0 then next_nonzero_byte this s1 else Some (Inr b1, s1))"
proof
  show "next_nonzero_byte this s = Some (Inr b, s') \<longrightarrow> b \<noteq> 0"
    using loop_result_nonzero[of this 0 s "(Inr b, s')"]
    by (auto simp: next_nonzero_byte_eq_loop)
  show "next_nonzero_byte this s =
       (case next_byte this s of
          (Inl e, s1) \<Rightarrow> Some (Inl e, s1)
        | (Inr b1, s1) \<Rightarrow> if b1 = 0 then next_nonzero_byte this s1 else Some (Inr b1, s1))"
    by (rule next_nonzero_byte_unfold)
qed

theorem next_nonzero_byte_never_zero_witness:
  "next_nonzero_byte Counter_RNG 0 = Some (Inr 1, 2) \<and> (1 :: byte) \<noteq> 0"
  using next_nonzero_byte_never_zero[of Counter_RNG 0 1 2]
  by (simp add: next_nonzero_byte_def next_nonzero_byte_loop.simps next_byte_def Counter_RNG_def)

text \<open>
  Claim C9. If some draw in the sequence of \<^verbatim>\<open>next_byte\<close> draws returns a non-zero byte,
  \<^verbatim>\<open>next_nonzero_byte()\<close> terminates and returns a non-zero byte; under a generator whose
  every draw returns zero it does not terminate. In general it terminates exactly when some
  draw does not return zero (it returns a non-zero byte or throws).
\<close>

theorem next_nonzero_byte_termination:
  "(fst (nth_next_byte this k s) = Inr b \<and> b \<noteq> 0 \<longrightarrow>
      (\<exists>b' s'. next_nonzero_byte this s = Some (Inr b', s') \<and> b' \<noteq> 0))
   \<and> ((\<forall>k. fst (nth_next_byte this k s) = Inr 0) \<longrightarrow> next_nonzero_byte this s = None)
   \<and> ((\<exists>r. next_nonzero_byte this s = Some r) \<longleftrightarrow>
        (\<exists>k. fst (nth_next_byte this k s) \<noteq> Inr 0))"
proof (intro conjI impI)
  assume "fst (nth_next_byte this k s) = Inr b \<and> b \<noteq> 0"
  then have "nth_next_byte this k s = (Inr b, snd (nth_next_byte this k s))" and "b \<noteq> 0"
    by (simp_all add: prod_eq_iff)
  then show "\<exists>b' s'. next_nonzero_byte this s = Some (Inr b', s') \<and> b' \<noteq> 0"
    unfolding next_nonzero_byte_eq_loop by (rule loop_returns)
next
  assume "\<forall>k. fst (nth_next_byte this k s) = Inr 0"
  then have "\<not> (\<exists>r. next_nonzero_byte this s = Some r)"
    using terminates_iff[of this s] by blast
  then show "next_nonzero_byte this s = None"
    by (cases "next_nonzero_byte this s") blast+
next
  show "(\<exists>r. next_nonzero_byte this s = Some r) \<longleftrightarrow>
        (\<exists>k. fst (nth_next_byte this k s) \<noteq> Inr 0)"
    by (rule terminates_iff)
qed

theorem next_nonzero_byte_termination_witness:
  "fst (nth_next_byte Counter_RNG 1 0) = Inr 1 \<and> (1 :: byte) \<noteq> 0
   \<and> next_nonzero_byte Counter_RNG 0 \<noteq> None
   \<and> (\<forall>k. fst (nth_next_byte Zero_RNG k ()) = Inr 0)
   \<and> next_nonzero_byte Zero_RNG () = None"
proof -
  have draw: "fst (nth_next_byte Counter_RNG 1 0) = Inr 1 \<and> (1 :: byte) \<noteq> 0"
    by (simp add: next_byte_def Counter_RNG_def)
  have zeros: "\<forall>k. fst (nth_next_byte Zero_RNG k ()) = Inr 0"
    by (simp add: Zero_RNG_draws)
  from draw next_nonzero_byte_termination[of Counter_RNG 1 0 1]
  have "next_nonzero_byte Counter_RNG 0 \<noteq> None" by auto
  moreover from zeros next_nonzero_byte_termination[of Zero_RNG _ "()"]
  have "next_nonzero_byte Zero_RNG () = None" by blast
  ultimately show ?thesis using draw zeros by blast
qed


subsection \<open>The default of \<^verbatim>\<open>randomize_with_input\<close>\<close>

text \<open>
  Claim C6. On a generator that does not override it, \<^verbatim>\<open>randomize_with_input\<close> is
  \<^verbatim>\<open>add_entropy\<close> of the extra data followed by \<^verbatim>\<open>randomize\<close> on the state that left.
\<close>

theorem default_randomize_with_input:
  "randomize_with_input_override this = None \<Longrightarrow>
     randomize_with_input this output_len input s =
       (case add_entropy this input s of
          (Inl e, s') \<Rightarrow> (Inl e, s')
        | (Inr _, s') \<Rightarrow> randomize this output_len s')"
  by (simp add: randomize_with_input_def RandomNumberGenerator_randomize_with_input_def)

theorem default_randomize_with_input_witness:
  "randomize_with_input_override Counter_RNG = None
   \<and> randomize_with_input Counter_RNG 2 [9, 9, 9] 0 = (Inr [3, 4], 5)
   \<and> randomize_with_input Null_RNG 2 [9, 9, 9] () = (Inl (Exception ''Null_RNG called''), ())"
  using default_randomize_with_input[of Counter_RNG 2 "[9, 9, 9]" 0]
    default_randomize_with_input[of Null_RNG 2 "[9, 9, 9]" "()"]
  by (simp add: Counter_RNG_def Null_RNG_def Null_RNG_randomize_def Null_RNG_add_entropy_def)

subsection \<open>The self-seeding generator\<close>

text \<open>The definitions a concrete run of the test generators unfolds.\<close>

lemmas test_defs = Test_build_def Test_DRBG_def Test_DRBG_new_def Test_DRBG_randomize_def
  Test_DRBG_poll_def Null_RNG_def Null_RNG_randomize_def

lemma constructed_eq:
  "constructor_body (AutoSeeded_RNG_force_reseed D) \<lparr>m_rng = d\<rparr> = spec_post_construction D d"
  by (simp add: constructor_body_def AutoSeeded_RNG_force_reseed_def m_rng_call_def
      spec_post_construction_def split: prod.splits sum.splits)

lemma AutoSeeded_RNG_new_eq:
  "AutoSeeded_RNG_new env args =
     (case AutoSeeded_RNG_new_drbg env args of
        Inl e \<Rightarrow> Inl e
      | Inr d \<Rightarrow> spec_post_construction (BOTAN_AUTO_RNG_DRBG env) d)"
  by (cases args)
     (simp_all add: AutoSeeded_RNG_rng_def AutoSeeded_RNG_sources_def
        AutoSeeded_RNG_rng_and_sources_def AutoSeeded_RNG_default_def constructed_eq
        split: sum.splits)

text \<open>
  Claim C1, as amended. For every constructor and every behaviour of the DRBG and its seed
  sources, the constructor returns an object on which \<^verbatim>\<open>is_seeded()\<close> is true, or it throws
  the seeding error, or it passes on what the DRBG's constructor, its \<^verbatim>\<open>force_reseed\<close> or
  its zero-length \<^verbatim>\<open>randomize\<close> threw. A constructor that throws returns no object; none
  returns an unseeded one.
\<close>

theorem AutoSeeded_RNG_construction_outcomes:
  "(\<exists>this. AutoSeeded_RNG_new env args = Inr this
            \<and> AutoSeeded_RNG_is_seeded (BOTAN_AUTO_RNG_DRBG env) this)
   \<or> AutoSeeded_RNG_new env args = Inl (Exception ''AutoSeeded_RNG reseeding failed'')
   \<or> (\<exists>e. AutoSeeded_RNG_new env args = Inl e \<and> drbg_throws env args e)"
  by (auto simp: AutoSeeded_RNG_new_eq spec_post_construction_def drbg_throws_def
      AutoSeeded_RNG_is_seeded_def split: sum.splits prod.splits)

theorem AutoSeeded_RNG_construction_outcomes_witness:
  "AutoSeeded_RNG_new Test_build (From_rng Working_source 1024) =
     Inr \<lparr>m_rng = \<lparr>drbg_source = Working_source, drbg_seeded = True, drbg_counter = 0,
                   drbg_max_output = 1024\<rparr>\<rparr>
   \<and> AutoSeeded_RNG_new Test_build (From_sources Dry_source 1024) =
       Inl (Exception ''AutoSeeded_RNG reseeding failed'')
   \<and> drbg_throws Test_build (From_rng Null_source 1024) (Exception ''Null_RNG called'')"
  using AutoSeeded_RNG_construction_outcomes[of Test_build "From_rng Working_source 1024"]
  by (simp add: AutoSeeded_RNG_rng_def AutoSeeded_RNG_sources_def constructor_body_def
      AutoSeeded_RNG_force_reseed_def m_rng_call_def drbg_throws_def test_defs)

text \<open>
  Counterexample to C1 as stated: with a \<^verbatim>\<open>Null_RNG\<close> as the seed source the constructor neither
  returns nor throws the seeding error; the source's own exception leaves it.
\<close>

theorem AutoSeeded_RNG_construction_propagates:
  "AutoSeeded_RNG_new Test_build (From_rng Null_source 1024) = Inl (Exception ''Null_RNG called'')
   \<and> Exception ''Null_RNG called'' \<noteq> Exception ''AutoSeeded_RNG reseeding failed''"
  by (simp add: AutoSeeded_RNG_rng_def constructor_body_def AutoSeeded_RNG_force_reseed_def
      m_rng_call_def test_defs)

text \<open>
  Claim C5. Whatever the constructor, once the DRBG is built the construction is the same
  sequence: \<^verbatim>\<open>force_reseed\<close> of the DRBG, then a \<^verbatim>\<open>randomize\<close> of length zero on the
  state that left, then \<^verbatim>\<open>is_seeded()\<close> on the state that left; the seeding error is thrown
  if that returned false and the object is constructed if it returned true. A throw of the DRBG
  on the way ends the sequence there.
\<close>

theorem AutoSeeded_RNG_post_construction:
  "AutoSeeded_RNG_new env args =
     (case AutoSeeded_RNG_new_drbg env args of
        Inl e \<Rightarrow> Inl e
      | Inr d \<Rightarrow> spec_post_construction (BOTAN_AUTO_RNG_DRBG env) d)"
  by (rule AutoSeeded_RNG_new_eq)

theorem AutoSeeded_RNG_post_construction_witness:
  "AutoSeeded_RNG_new Test_build (From_rng_and_sources Working_source Dry_source 7) =
     Inr \<lparr>m_rng = \<lparr>drbg_source = Working_source, drbg_seeded = True, drbg_counter = 0,
                   drbg_max_output = 7\<rparr>\<rparr>
   \<and> AutoSeeded_RNG_new Test_build (From_rng Dry_source 7) =
       Inl (Exception ''AutoSeeded_RNG reseeding failed'')"
  using AutoSeeded_RNG_post_construction[of Test_build "From_rng_and_sources Working_source Dry_source 7"]
    AutoSeeded_RNG_post_construction[of Test_build "From_rng Dry_source 7"]
  by (simp add: spec_post_construction_def test_defs)

text \<open>
  Claim C10. The constructor without a seed source is the constructor from the system
  generator when \<^verbatim>\<open>BOTAN_HAS_SYSTEM_RNG\<close> is defined and the constructor from the global
  entropy sources otherwise; the DRBG is built with exactly the threshold it was given.
\<close>

theorem AutoSeeded_RNG_default_seed_source:
  "AutoSeeded_RNG_default env n =
     (if BOTAN_HAS_SYSTEM_RNG env then AutoSeeded_RNG_rng env (system_rng env) n
      else AutoSeeded_RNG_sources env (Entropy_Sources_global_sources env) n)
   \<and> AutoSeeded_RNG_default env n =
       (case (if BOTAN_HAS_SYSTEM_RNG env
              then new_with_rng (BOTAN_AUTO_RNG_DRBG env)
                     (MessageAuthenticationCode_create env (BOTAN_AUTO_RNG_HMAC env))
                     (system_rng env) n
              else new_with_sources (BOTAN_AUTO_RNG_DRBG env)
                     (MessageAuthenticationCode_create env (BOTAN_AUTO_RNG_HMAC env))
                     (Entropy_Sources_global_sources env) n) of
          Inl e \<Rightarrow> Inl e
        | Inr d \<Rightarrow> spec_post_construction (BOTAN_AUTO_RNG_DRBG env) d)"
  by (simp add: AutoSeeded_RNG_default_def AutoSeeded_RNG_rng_def AutoSeeded_RNG_sources_def
      constructed_eq split: sum.splits)

theorem AutoSeeded_RNG_default_seed_source_witness:
  "AutoSeeded_RNG_default Test_build 4096 =
     Inr \<lparr>m_rng = \<lparr>drbg_source = Working_source, drbg_seeded = True, drbg_counter = 0,
                   drbg_max_output = 4096\<rparr>\<rparr>
   \<and> AutoSeeded_RNG_default (Test_build\<lparr>BOTAN_HAS_SYSTEM_RNG := False\<rparr>) 4096 =
       Inl (Exception ''AutoSeeded_RNG reseeding failed'')"
  using AutoSeeded_RNG_default_seed_source[of Test_build 4096, THEN conjunct2]
    AutoSeeded_RNG_default_seed_source[of "Test_build\<lparr>BOTAN_HAS_SYSTEM_RNG := False\<rparr>" 4096,
      THEN conjunct2]
  by (simp add: spec_post_construction_def test_defs)

text \<open>
  Claim C2, as amended. \<^verbatim>\<open>is_seeded\<close>, \<^verbatim>\<open>name\<close>, \<^verbatim>\<open>clear\<close>, \<^verbatim>\<open>add_entropy\<close>,
  \<^verbatim>\<open>reseed\<close> and \<^verbatim>\<open>randomize_with_input\<close> return what the same call on the owned DRBG
  returns and leave the DRBG (and the entropy sources) as that call leaves them;
  \<^verbatim>\<open>randomize\<close> does so for the DRBG's \<^verbatim>\<open>randomize_with_input\<close> with the timestamp buffer
  as the extra input.
\<close>

theorem AutoSeeded_RNG_delegation:
  "AutoSeeded_RNG_is_seeded D this = is_seeded D (m_rng this)
   \<and> AutoSeeded_RNG_name D this = name D (m_rng this)
   \<and> fst (AutoSeeded_RNG_clear D this) = fst (clear D (m_rng this))
   \<and> m_rng (snd (AutoSeeded_RNG_clear D this)) = snd (clear D (m_rng this))
   \<and> fst (AutoSeeded_RNG_add_entropy D input this) = fst (add_entropy D input (m_rng this))
   \<and> m_rng (snd (AutoSeeded_RNG_add_entropy D input this)) =
       snd (add_entropy D input (m_rng this))
   \<and> fst (AutoSeeded_RNG_reseed D poll_bits poll_timeout (this, srcs)) =
       fst (reseed D poll_bits poll_timeout (m_rng this, srcs))
   \<and> map_prod m_rng id (snd (AutoSeeded_RNG_reseed D poll_bits poll_timeout (this, srcs))) =
       snd (reseed D poll_bits poll_timeout (m_rng this, srcs))
   \<and> fst (AutoSeeded_RNG_randomize_with_input D n ad this) =
       fst (randomize_with_input D n ad (m_rng this))
   \<and> m_rng (snd (AutoSeeded_RNG_randomize_with_input D n ad this)) =
       snd (randomize_with_input D n ad (m_rng this))
   \<and> fst (AutoSeeded_RNG_randomize D ts n this) = fst (randomize_with_input D n ts (m_rng this))
   \<and> m_rng (snd (AutoSeeded_RNG_randomize D ts n this)) =
       snd (randomize_with_input D n ts (m_rng this))"
  by (simp add: AutoSeeded_RNG_is_seeded_def AutoSeeded_RNG_name_def AutoSeeded_RNG_clear_def
      AutoSeeded_RNG_add_entropy_def AutoSeeded_RNG_reseed_def
      AutoSeeded_RNG_randomize_with_input_def AutoSeeded_RNG_randomize_def
      RandomNumberGenerator_randomize_with_ts_input_def m_rng_call_def split: prod.splits)

theorem AutoSeeded_RNG_delegation_witness:
  "AutoSeeded_RNG_is_seeded Test_DRBG
     \<lparr>m_rng = \<lparr>drbg_source = Working_source, drbg_seeded = True, drbg_counter = 0,
                drbg_max_output = 1024\<rparr>\<rparr>
   \<and> AutoSeeded_RNG_name Test_DRBG
       \<lparr>m_rng = \<lparr>drbg_source = Working_source, drbg_seeded = True, drbg_counter = 0,
                  drbg_max_output = 1024\<rparr>\<rparr> = ''Test_DRBG''"
  using AutoSeeded_RNG_delegation[of Test_DRBG
     "\<lparr>m_rng = \<lparr>drbg_source = Working_source, drbg_seeded = True, drbg_counter = 0,
                drbg_max_output = 1024\<rparr>\<rparr>"]
  by (simp add: test_defs)

text \<open>
  Counterexample to C2 as stated, at \<^verbatim>\<open>randomize\<close>: on a DRBG that mixes what it is given, the
  draw through the self-seeding generator differs from the DRBG's own \<^verbatim>\<open>randomize\<close> with
  the same arguments.
\<close>

theorem AutoSeeded_RNG_randomize_not_delegated:
  "fst (AutoSeeded_RNG_randomize Test_DRBG [1, 2, 3, 4] 2
          \<lparr>m_rng = \<lparr>drbg_source = Working_source, drbg_seeded = True, drbg_counter = 0,
                     drbg_max_output = 1024\<rparr>\<rparr>) = Inr [4, 5]
   \<and> fst (randomize Test_DRBG 2
            \<lparr>drbg_source = Working_source, drbg_seeded = True, drbg_counter = 0,
              drbg_max_output = 1024\<rparr>) = Inr [0, 1]
   \<and> [4, 5] \<noteq> [0, 1 :: byte]"
  by (simp add: AutoSeeded_RNG_randomize_def RandomNumberGenerator_randomize_with_ts_input_def
      AutoSeeded_RNG_randomize_with_input_def m_rng_call_def randomize_with_input_def
      RandomNumberGenerator_randomize_with_input_def test_defs)

text \<open>
  Claim C7. \<^verbatim>\<open>AutoSeeded_RNG::randomize\<close> is \<^verbatim>\<open>randomize_with_ts_input\<close> on the same
  object: the draw reaches the DRBG as \<^verbatim>\<open>randomize_with_input\<close> with the timestamp buffer as
  the extra input.
\<close>

theorem AutoSeeded_RNG_randomize_with_timestamps:
  "AutoSeeded_RNG_randomize D ts n this =
     RandomNumberGenerator_randomize_with_ts_input (AutoSeeded_RNG_randomize_with_input D) ts n this
   \<and> fst (AutoSeeded_RNG_randomize D ts n this) = fst (randomize_with_input D n ts (m_rng this))
   \<and> m_rng (snd (AutoSeeded_RNG_randomize D ts n this)) =
       snd (randomize_with_input D n ts (m_rng this))"
  by (simp add: AutoSeeded_RNG_randomize_def RandomNumberGenerator_randomize_with_ts_input_def
      AutoSeeded_RNG_randomize_with_input_def m_rng_call_def split: prod.splits)

subsection \<open>The sharing wrapper\<close>





end
